theory Spec2Isabelle
  imports Main "HOL-Library.Word"
begin

section \<open>The chat widget of \<^verbatim>\<open>client/src/App.tsx\<close>\<close>

text \<open>
  The component \<^verbatim>\<open>ChatInterface\<close> keeps five \<^verbatim>\<open>useState\<close> cells and reacts to
  user events and to the completion of one HTTP request per send. The embedding below
  follows the file top to bottom: the data of the interfaces, the sentinel
  \<^verbatim>\<open>LOADING_MESSAGE\<close>, the handlers, and the Transport \<^verbatim>\<open>sendMessageToServer\<close>.
  An \<^verbatim>\<open>async\<close> function is split at its \<^verbatim>\<open>await\<close>: the part that runs before control
  returns to the event loop, and the part that runs when the awaited promise settles.
\<close>

subsection \<open>Values of the JavaScript runtime\<close>

text \<open>
  A JavaScript string is a sequence of UTF-16 code units. \<open>utf16\<close> gives the code units
  of an ASCII literal of the source.
\<close>

type_synonym jsstring = "16 word list"

definition utf16 :: "string \<Rightarrow> jsstring" where
  "utf16 s = map of_char s"

text \<open>
  What \<^verbatim>\<open>response.json()\<close> can deliver, and \<^verbatim>\<open>undefined\<close>, which reading a missing
  property gives. A number is the bit pattern of its IEEE double; no arithmetic is done
  on it here. \<open>JObj ps\<close> lists the own properties of a parsed object, keys distinct, in
  the order in which \<^verbatim>\<open>Object.keys\<close> enumerates them.
\<close>

datatype jsval =
    JUndefined
  | JNull
  | JBool bool
  | JNum "64 word"
  | JStr jsstring
  | JArr "jsval list"
  | JObj "(jsstring \<times> jsval) list"

subsection \<open>The interfaces \<^verbatim>\<open>Message\<close> and \<^verbatim>\<open>FileInfo\<close>\<close>

record Blob =
  blob_parts :: "8 word list"
  blob_type :: jsstring

text \<open>
  A \<^verbatim>\<open>File\<close> of a \<^verbatim>\<open>FileList\<close>, as the browser hands it to the component. Its type is
  the lower-case media type that the browser found, which \<^verbatim>\<open>new Blob\<close> takes over as it is.
\<close>

record File =
  file_name :: jsstring
  file_type :: jsstring
  file_bytes :: "8 word list"

record FileInfo =
  name :: jsstring
  data :: Blob
  type :: jsstring

datatype Sender = User | Agent

text \<open>
  The interface declares \<^verbatim>\<open>text: string\<close>, but the Transport fills it from a value of
  type \<^verbatim>\<open>any\<close>, so the field holds whatever the runtime put there. The optional fields
  are \<open>None\<close> when the object literal leaves them out. The field \<^verbatim>\<open>files\<close> of a Message
  is \<open>files_msg\<close>; \<open>files\<close> is the state cell of the component.
\<close>

record Message =
  "text" :: jsval
  sender :: Sender
  files_msg :: "FileInfo list option"
  images :: "jsstring list option"

text \<open>
  The store holds references to objects, and line 43 compares them with \<^verbatim>\<open>!==\<close> against
  the module-level object \<^verbatim>\<open>LOADING_MESSAGE\<close>. A reference is therefore either the
  sentinel itself or an object that an object literal created later, which is a different
  object whatever its fields hold. No object is changed after it has been stored.
\<close>

datatype MessageRef = LOADING_MESSAGE | Obj Message

fun deref :: "MessageRef \<Rightarrow> Message" where
  "deref LOADING_MESSAGE =
     \<lparr>text = JStr (utf16 ''Loading...''), sender = Agent, files_msg = None, images = None\<rparr>"
| "deref (Obj m) = m"

subsection \<open>The state of the component and of the network\<close>

text \<open>
  The \<^verbatim>\<open>FormData\<close> that \<^verbatim>\<open>sendMessageToServer\<close> fills and gives to \<^verbatim>\<open>fetch\<close> as the body
  of the request: the value of its entry \<^verbatim>\<open>input\<close>, and its entries \<^verbatim>\<open>files\<close>, each a
  blob with a file name.
\<close>

record request =
  form_input :: jsval
  form_files :: "(Blob \<times> jsstring) list"

text \<open>
  The five \<^verbatim>\<open>useState\<close> cells, and the calls of \<^verbatim>\<open>fetch\<close> made so far, oldest first.
  A handler reads the cells of the render it belongs to; React commits a render before it
  dispatches the next event, so these are the current cells.
\<close>

record state =
  messages :: "MessageRef list"
  input :: jsstring
  isDragging :: bool
  files :: "FileInfo list"
  isLoading :: bool
  requests :: "request list"

definition initial :: state where
  "initial = \<lparr>messages = [], input = [], isDragging = False, files = [],
     isLoading = False, requests = []\<rparr>"

subsection \<open>\<^verbatim>\<open>String.prototype.trim\<close>\<close>

text \<open>
  The code units that \<^verbatim>\<open>trim\<close> strips: the WhiteSpace and LineTerminator code points of
  ECMAScript, all of them in the Basic Multilingual Plane.
\<close>

definition isWhiteSpace :: "16 word \<Rightarrow> bool" where
  "isWhiteSpace c \<longleftrightarrow>
     c \<in> {0x0009, 0x000A, 0x000B, 0x000C, 0x000D, 0x0020, 0x00A0, 0x1680,
          0x2028, 0x2029, 0x202F, 0x205F, 0x3000, 0xFEFF}
     \<or> (0x2000 \<le> c \<and> c \<le> 0x200A)"

definition trim :: "jsstring \<Rightarrow> jsstring" where
  "trim s = rev (dropWhile isWhiteSpace (rev (dropWhile isWhiteSpace s)))"

subsection \<open>The Composer: \<^verbatim>\<open>handleFiles\<close>, \<^verbatim>\<open>removeFile\<close>, drag and drop\<close>

definition toFileInfo :: "File \<Rightarrow> FileInfo" where
  "toFileInfo file =
     \<lparr>name = file_name file,
      data = \<lparr>blob_parts = file_bytes file, blob_type = file_type file\<rparr>,
      type = file_type file\<rparr>"

definition handleFiles :: "File list \<Rightarrow> state \<Rightarrow> state" where
  "handleFiles newFiles s =
     (let fileList = map toFileInfo newFiles
      in s\<lparr>files := files s @ fileList\<rparr>)"

text \<open>\<^verbatim>\<open>prevFiles.filter((_, i) => i !== index)\<close>: the elements paired with their positions.\<close>

definition removeFile :: "nat \<Rightarrow> state \<Rightarrow> state" where
  "removeFile index s =
     s\<lparr>files := map fst (filter (\<lambda>(_, i). i \<noteq> index)
                      (zip (files s) [0..<length (files s)]))\<rparr>"

definition handleFileDrop :: "File list \<Rightarrow> state \<Rightarrow> state" where
  "handleFileDrop dropped s = handleFiles dropped (s\<lparr>isDragging := False\<rparr>)"

definition handleDragOver :: "state \<Rightarrow> state" where
  "handleDragOver s = s\<lparr>isDragging := True\<rparr>"

definition handleDragLeave :: "state \<Rightarrow> state" where
  "handleDragLeave s = s\<lparr>isDragging := False\<rparr>"

definition handleChange :: "jsstring \<Rightarrow> state \<Rightarrow> state" where
  "handleChange v s = s\<lparr>input := v\<rparr>"

subsection \<open>\<^verbatim>\<open>handleSend\<close> up to its \<^verbatim>\<open>await\<close>\<close>

text \<open>
  \<^verbatim>\<open>FormData.append\<close> takes its strings as scalar value strings: a surrogate code unit
  that is not part of a pair is replaced by U+FFFD.
\<close>

definition isSurrogate :: "16 word \<Rightarrow> bool" where
  "isSurrogate c \<longleftrightarrow> 0xD800 \<le> c \<and> c \<le> 0xDFFF"

definition isLeading :: "16 word \<Rightarrow> bool" where
  "isLeading c \<longleftrightarrow> 0xD800 \<le> c \<and> c \<le> 0xDBFF"

definition isTrailing :: "16 word \<Rightarrow> bool" where
  "isTrailing c \<longleftrightarrow> 0xDC00 \<le> c \<and> c \<le> 0xDFFF"

fun toUSVString :: "jsstring \<Rightarrow> jsstring" where
  "toUSVString [] = []"
| "toUSVString [c] = (if isSurrogate c then [0xFFFD] else [c])"
| "toUSVString (c # d # cs) =
     (if isLeading c \<and> isTrailing d then c # d # toUSVString cs
      else if isSurrogate c then 0xFFFD # toUSVString (d # cs)
      else c # toUSVString (d # cs))"

text \<open>
  \<^verbatim>\<open>sendMessageToServer\<close> runs up to \<^verbatim>\<open>await fetch(...)\<close> inside the call: it fills the
  form data from the message and issues the request. The address and the method are
  constants of the source and are not recorded. \<^verbatim>\<open>handleSend\<close> passes a message whose
  text is the string of the text field; a text that is not a string is recorded as it is
  given.
\<close>

definition sendMessageToServer :: "Message \<Rightarrow> request" where
  "sendMessageToServer message =
     \<lparr>form_input = (case text message of JStr cs \<Rightarrow> JStr (toUSVString cs) | v \<Rightarrow> v),
      form_files = (case files_msg message of
                      None \<Rightarrow> []
                    | Some fs \<Rightarrow> map (\<lambda>file. (data file, toUSVString (name file))) fs)\<rparr>"

definition newMessage :: "state \<Rightarrow> Message" where
  "newMessage s =
     \<lparr>text = JStr (input s), sender = User, files_msg = Some (files s), images = None\<rparr>"

text \<open>
  Lines 28 to 41. The first \<^verbatim>\<open>setMessages\<close> stores a list built from the rendered
  \<^verbatim>\<open>messages\<close>, the second one updates whatever the first one stored.
\<close>

definition handleSend :: "state \<Rightarrow> state" where
  "handleSend s =
     (if trim (input s) = [] \<and> length (files s) = 0 then s
      else
        let s1 = s\<lparr>messages := messages s @ [Obj (newMessage s)]\<rparr>;
            s2 = s1\<lparr>input := []\<rparr>;
            s3 = s2\<lparr>files := []\<rparr>;
            s4 = s3\<lparr>isLoading := True\<rparr>;
            s5 = s4\<lparr>messages := messages s4 @ [LOADING_MESSAGE]\<rparr>
        in s5\<lparr>requests := requests s5 @ [sendMessageToServer (newMessage s)]\<rparr>)"

subsection \<open>The Transport after \<^verbatim>\<open>fetch\<close> settles\<close>

text \<open>
  What the network gives back: the promise of \<^verbatim>\<open>fetch\<close> rejects, or it fulfils with a
  response. \<open>json\<close> is what \<^verbatim>\<open>response.json()\<close> resolves to; \<open>None\<close> when it rejects
  because the body is not JSON.
\<close>

record response =
  ok :: bool
  statusText :: jsstring
  json :: "jsval option"

datatype fetched = Rejected | Fulfilled response

datatype error =
    FetchFailed
  | ServerError jsstring
  | SyntaxError
  | TypeError

text \<open>
  Three operations of the runtime work on doubles and on the text of numbers, which are
  not modelled; they are taken as given, and none of them throws. \<open>NumberToString d\<close> is
  the text of the number \<open>d\<close>; \<open>NumberIndexKey d\<close> is the property key of \<^verbatim>\<open>d - 1\<close>;
  \<open>StringIndexKey cs\<close> is the property key of \<^verbatim>\<open>cs - 1\<close> for a string \<open>cs\<close>, which is
  converted to a number first.
\<close>

record runtime =
  NumberToString :: "64 word \<Rightarrow> jsstring"
  NumberIndexKey :: "64 word \<Rightarrow> jsstring"
  StringIndexKey :: "jsstring \<Rightarrow> jsstring"

text \<open>
  The conversion of a value to a string, as \<^verbatim>\<open>+\<close> and \<^verbatim>\<open>-\<close> do it for an operand. An
  object of a parsed body inherits \<^verbatim>\<open>valueOf\<close>, which gives back the object, and
  \<^verbatim>\<open>toString\<close>, which gives \<^verbatim>\<open>[object Object]\<close>; an own property \<^verbatim>\<open>toString\<close> hides the
  inherited one and is no function, and then the conversion throws a TypeError. An array
  joins the strings of its elements with commas, \<^verbatim>\<open>null\<close> counting as the empty string.
\<close>

fun toString :: "runtime \<Rightarrow> jsval \<Rightarrow> error + jsstring"
  and join :: "runtime \<Rightarrow> jsval list \<Rightarrow> error + jsstring" where
  "toString rt JUndefined = Inr (utf16 ''undefined'')"
| "toString rt JNull = Inr (utf16 ''null'')"
| "toString rt (JBool b) = Inr (if b then utf16 ''true'' else utf16 ''false'')"
| "toString rt (JNum d) = Inr (NumberToString rt d)"
| "toString rt (JStr cs) = Inr cs"
| "toString rt (JArr xs) = join rt xs"
| "toString rt (JObj ps) =
     (if utf16 ''toString'' \<in> set (map fst ps) then Inl TypeError
      else Inr (utf16 ''[object Object]''))"
| "join rt [] = Inr []"
| "join rt (x # xs) =
     (case (if x = JUndefined \<or> x = JNull then Inr [] else toString rt x) of
        Inl e \<Rightarrow> Inl e
      | Inr s \<Rightarrow>
          if xs = [] then Inr s
          else (case join rt xs of Inl e \<Rightarrow> Inl e | Inr t \<Rightarrow> Inr (s @ utf16 '','' @ t)))"

text \<open>
  The property key of \<^verbatim>\<open>v - 1\<close>: \<^verbatim>\<open>undefined\<close> counts as NaN, \<^verbatim>\<open>null\<close> and \<^verbatim>\<open>false\<close> as 0,
  \<^verbatim>\<open>true\<close> as 1, and an object or an array is converted to its string first.
\<close>

fun indexKey :: "runtime \<Rightarrow> jsval \<Rightarrow> error + jsstring" where
  "indexKey rt JUndefined = Inr (utf16 ''NaN'')"
| "indexKey rt JNull = Inr (utf16 ''-1'')"
| "indexKey rt (JBool b) = Inr (if b then utf16 ''0'' else utf16 ''-1'')"
| "indexKey rt (JNum d) = Inr (NumberIndexKey rt d)"
| "indexKey rt (JStr cs) = Inr (StringIndexKey rt cs)"
| "indexKey rt v =
     (case toString rt v of Inl e \<Rightarrow> Inl e | Inr cs \<Rightarrow> Inr (StringIndexKey rt cs))"

text \<open>The key of an array index: its decimal digits.\<close>

fun dec :: "nat \<Rightarrow> jsstring" where
  "dec n = (if n < 10 then [of_nat (48 + n)]
            else dec (n div 10) @ [of_nat (48 + n mod 10)])"

declare dec.simps [simp del]

text \<open>
  The own enumerable properties that \<^verbatim>\<open>Object.keys\<close> walks through, after the value was
  converted to an object: the properties of an object, the elements of an array, the code
  units of a string; a boolean or a number has none. (\<^verbatim>\<open>Object.keys\<close> converts its
  argument since ECMAScript 2015; the file is an ECMAScript module with \<^verbatim>\<open>async\<close>
  functions, so it runs on nothing older.)
\<close>

fun ownProperties :: "jsval \<Rightarrow> (jsstring \<times> jsval) list" where
  "ownProperties (JObj ps) = ps"
| "ownProperties (JArr xs) = zip (map dec [0..<length xs]) xs"
| "ownProperties (JStr cs) = zip (map dec [0..<length cs]) (map (\<lambda>c. JStr [c]) cs)"
| "ownProperties _ = []"

text \<open>
  \<^verbatim>\<open>v[k]\<close> on a value that is neither \<^verbatim>\<open>undefined\<close> nor \<^verbatim>\<open>null\<close>, for a key \<open>k\<close> that
  no built-in prototype defines and that is not \<^verbatim>\<open>length\<close>: the Transport reads
  \<^verbatim>\<open>messages\<close>, \<^verbatim>\<open>files\<close> and the keys that \<^verbatim>\<open>Object.keys\<close> returned.
\<close>

definition propertyOf :: "jsval \<Rightarrow> jsstring \<Rightarrow> jsval" where
  "propertyOf v k = (case map_of (ownProperties v) k of None \<Rightarrow> JUndefined | Some x \<Rightarrow> x)"

text \<open>Reading a property of \<^verbatim>\<open>undefined\<close> or \<^verbatim>\<open>null\<close> throws a TypeError.\<close>

definition get :: "jsval \<Rightarrow> jsstring \<Rightarrow> error + jsval" where
  "get v k = (if v = JUndefined \<or> v = JNull then Inl TypeError else Inr (propertyOf v k))"

definition Object_keys :: "jsval \<Rightarrow> error + jsstring list" where
  "Object_keys v =
     (if v = JUndefined \<or> v = JNull then Inl TypeError
      else Inr (map fst (ownProperties v)))"

text \<open>
  \<^verbatim>\<open>m[m.length - 1]\<close>. An array and a string have a \<^verbatim>\<open>length\<close>, and the index \<open>-1\<close> of
  an empty one is a missing property. A boolean or a number has no \<^verbatim>\<open>length\<close> and no
  property \<^verbatim>\<open>NaN\<close>. An object is asked for its own property \<^verbatim>\<open>length\<close>.
\<close>

fun lastElement :: "runtime \<Rightarrow> jsval \<Rightarrow> error + jsval" where
  "lastElement rt JUndefined = Inl TypeError"
| "lastElement rt JNull = Inl TypeError"
| "lastElement rt (JArr xs) =
     Inr (if length xs = 0 then JUndefined else xs ! (length xs - 1))"
| "lastElement rt (JStr cs) =
     Inr (if length cs = 0 then JUndefined else JStr [cs ! (length cs - 1)])"
| "lastElement rt (JBool b) = Inr JUndefined"
| "lastElement rt (JNum d) = Inr JUndefined"
| "lastElement rt (JObj ps) =
     (case indexKey rt (propertyOf (JObj ps) (utf16 ''length'')) of
        Inl e \<Rightarrow> Inl e
      | Inr k \<Rightarrow> Inr (propertyOf (JObj ps) k))"

text \<open>\<^verbatim>\<open>'data:image/png;base64,' + v\<close>\<close>

definition dataURI :: "runtime \<Rightarrow> jsval \<Rightarrow> error + jsstring" where
  "dataURI rt v =
     (case toString rt v of
        Inl e \<Rightarrow> Inl e
      | Inr cs \<Rightarrow> Inr (utf16 ''data:image/png;base64,'' @ cs))"

text \<open>
  The loop of lines 116 to 120 over the keys \<open>ks\<close> still to visit; \<open>imgs\<close> is the array
  \<^verbatim>\<open>receivedMessage.images\<close> as filled so far.
\<close>

fun pushImages :: "runtime \<Rightarrow> jsval \<Rightarrow> jsstring list \<Rightarrow> jsstring list \<Rightarrow> error + jsstring list" where
  "pushImages rt fs [] imgs = Inr imgs"
| "pushImages rt fs (x # ks) imgs =
     (case dataURI rt (propertyOf fs x) of
        Inl e \<Rightarrow> Inl e
      | Inr uri \<Rightarrow> pushImages rt fs ks (imgs @ [uri]))"

text \<open>Lines 102 to 122: the status check, the parse, and the extraction of the reply.\<close>

definition sendMessageToServer_settled :: "runtime \<Rightarrow> fetched \<Rightarrow> error + MessageRef list" where
  "sendMessageToServer_settled rt f =
     (case f of
        Rejected \<Rightarrow> Inl FetchFailed
      | Fulfilled response \<Rightarrow>
          if \<not> ok response then Inl (ServerError (statusText response))
          else
            (case json response of
               None \<Rightarrow> Inl SyntaxError
             | Some responseData \<Rightarrow>
                 (case get responseData (utf16 ''messages'') of
                    Inl e \<Rightarrow> Inl e
                  | Inr ms \<Rightarrow>
                      (case lastElement rt ms of
                         Inl e \<Rightarrow> Inl e
                       | Inr t \<Rightarrow>
                           (case get responseData (utf16 ''files'') of
                              Inl e \<Rightarrow> Inl e
                            | Inr fs \<Rightarrow>
                                (case Object_keys fs of
                                   Inl e \<Rightarrow> Inl e
                                 | Inr ks \<Rightarrow>
                                     (case pushImages rt fs ks [] of
                                        Inl e \<Rightarrow> Inl e
                                      | Inr imgs \<Rightarrow>
                                          Inr [Obj \<lparr>text = t, sender = Agent,
                                                    files_msg = Some [],
                                                    images = Some imgs\<rparr>])))))))"

subsection \<open>\<^verbatim>\<open>handleSend\<close> after its \<^verbatim>\<open>await\<close>\<close>

text \<open>The text of the message of the \<^verbatim>\<open>catch\<close> block; it starts with U+274C.\<close>

definition errorText :: jsstring where
  "errorText = 0x274C # utf16 '' Error: Failed to send message. Please try again.''"

definition errorMessage :: Message where
  "errorMessage = \<lparr>text = JStr errorText, sender = Agent, files_msg = None, images = None\<rparr>"

definition removeLoading :: "MessageRef list \<Rightarrow> MessageRef list" where
  "removeLoading prev = filter (\<lambda>msg. msg \<noteq> LOADING_MESSAGE) prev"

text \<open>
  Lines 41 to 57: the promise of \<^verbatim>\<open>sendMessageToServer\<close> fulfils with \<open>answers\<close> or rejects
  with an error that the \<^verbatim>\<open>catch\<close> block takes; the \<^verbatim>\<open>finally\<close> block runs after either.
  Nothing outside the \<^verbatim>\<open>try\<close> can throw, so the result is always a state.
\<close>

definition handleSend_settled :: "error + MessageRef list \<Rightarrow> state \<Rightarrow> state" where
  "handleSend_settled result s =
     (let s1 = (case result of
                  Inr answers \<Rightarrow> s\<lparr>messages := removeLoading (messages s) @ answers\<rparr>
                | Inl e \<Rightarrow> s\<lparr>messages := removeLoading (messages s) @ [Obj errorMessage]\<rparr>)
      in s1\<lparr>isLoading := False\<rparr>)"

subsection \<open>The triggers of a send, and the events of the component\<close>

text \<open>
  The button carries \<^verbatim>\<open>disabled={isLoading}\<close>, and a disabled button gets no click. The
  text field calls \<^verbatim>\<open>handleSend\<close> on the key \<^verbatim>\<open>Enter\<close> whatever \<^verbatim>\<open>isLoading\<close> is.
\<close>

definition handleClick :: "state \<Rightarrow> state" where
  "handleClick s = (if isLoading s then s else handleSend s)"

definition handleKeyPress :: "jsstring \<Rightarrow> state \<Rightarrow> state" where
  "handleKeyPress key s = (if key = utf16 ''Enter'' then handleSend s else s)"

text \<open>
  The events that reach the component. \<open>Settled f\<close> is the completion of a request with
  the outcome \<open>f\<close>; the component may be in any state when it arrives.
\<close>

datatype event =
    Change jsstring
  | Pick "File list"
  | Remove nat
  | Drop "File list"
  | DragOver
  | DragLeave
  | Click
  | KeyPress jsstring
  | Settled fetched

fun fire :: "runtime \<Rightarrow> state \<Rightarrow> event \<Rightarrow> state" where
  "fire rt s (Change v) = handleChange v s"
| "fire rt s (Pick fs) = handleFiles fs s"
| "fire rt s (Remove i) = removeFile i s"
| "fire rt s (Drop fs) = handleFileDrop fs s"
| "fire rt s DragOver = handleDragOver s"
| "fire rt s DragLeave = handleDragLeave s"
| "fire rt s Click = handleClick s"
| "fire rt s (KeyPress key) = handleKeyPress key s"
| "fire rt s (Settled f) = handleSend_settled (sendMessageToServer_settled rt f) s"

definition run :: "runtime \<Rightarrow> event list \<Rightarrow> state \<Rightarrow> state" where
  "run rt es s = foldl (fire rt) s es"

subsection \<open>Values for evaluating the model\<close>

text \<open>
  A reply of the documented shape, strings in \<^verbatim>\<open>files\<close> and an array in \<^verbatim>\<open>messages\<close>,
  needs none of the operations on numbers. This runtime stands for any one when a reply
  without numbers is evaluated.
\<close>

definition noConversion :: runtime where
  "noConversion = \<lparr>NumberToString = (\<lambda>d. []), NumberIndexKey = (\<lambda>d. []),
     StringIndexKey = (\<lambda>cs. [])\<rparr>"

text \<open>
  The state of the store that the button's guard maintains: at most one placeholder, and
  none while no send is in flight.
\<close>

definition single :: "state \<Rightarrow> bool" where
  "single s \<longleftrightarrow>
     count_list (messages s) LOADING_MESSAGE \<le> 1
     \<and> (isLoading s \<or> count_list (messages s) LOADING_MESSAGE = 0)"

section \<open>Properties\<close>

subsection \<open>Trimming\<close>

lemma trim_empty_iff: "trim s = [] \<longleftrightarrow> (\<forall>c \<in> set s. isWhiteSpace c)"
proof
  assume "trim s = []"
  then have "dropWhile isWhiteSpace (rev (dropWhile isWhiteSpace s)) = []"
    by (simp add: trim_def)
  then have all: "\<forall>c \<in> set (dropWhile isWhiteSpace s). isWhiteSpace c"
    by simp
  have "dropWhile isWhiteSpace s = []"
  proof (cases "dropWhile isWhiteSpace s")
    case Nil
    then show ?thesis .
  next
    case (Cons c cs)
    then have "\<not> isWhiteSpace c"
      by (metis hd_dropWhile list.sel(1) list.distinct(1))
    moreover have "isWhiteSpace c"
      using all Cons by simp
    ultimately show ?thesis by simp
  qed
  then show "\<forall>c \<in> set s. isWhiteSpace c"
    by simp
next
  assume "\<forall>c \<in> set s. isWhiteSpace c"
  then show "trim s = []"
    by (auto simp: trim_def dest: set_dropWhileD)
qed

lemma whitespace_no_surrogate: "isWhiteSpace c \<Longrightarrow> \<not> isSurrogate c"
  by (auto simp: isWhiteSpace_def isSurrogate_def word_le_nat_alt)

lemma toUSVString_id: "\<forall>c \<in> set cs. \<not> isSurrogate c \<Longrightarrow> toUSVString cs = cs"
  by (induction cs rule: toUSVString.induct) (auto simp: isLeading_def isSurrogate_def)

subsection \<open>The Composer\<close>

lemma removeFile_filter:
  "map fst (filter (\<lambda>(_, i). i \<noteq> k) (zip xs [0..<length xs])) =
     (if k < length xs then take k xs @ drop (Suc k) xs else xs)"
proof (induction xs rule: rev_induct)
  case Nil
  then show ?case by simp
next
  case (snoc x xs)
  have z: "zip (xs @ [x]) [0..<length (xs @ [x])] = zip xs [0..<length xs] @ [(x, length xs)]"
    by simp
  show ?case
    unfolding z using snoc by (auto simp: take_Suc_conv_app_nth)
qed

text \<open>
  C4. When the text of the Composer is empty or consists of white space only, and no file
  is attached, \<^verbatim>\<open>handleSend\<close> returns at line 28: the store, the Composer, the busy flag
  and the list of requests are what they were.
\<close>

theorem handleSend_noop:
  assumes "\<forall>c \<in> set (input s). isWhiteSpace c" and "files s = []"
  shows "handleSend s = s"
  using assms by (simp add: handleSend_def trim_empty_iff)

theorem handleSend_noop_witness:
  "handleSend \<lparr>messages = [LOADING_MESSAGE], input = [0x20, 0x09], isDragging = True,
               files = [], isLoading = True, requests = []\<rparr> =
   \<lparr>messages = [LOADING_MESSAGE], input = [0x20, 0x09], isDragging = True,
    files = [], isLoading = True, requests = []\<rparr>"
  by (rule handleSend_noop) (simp_all add: isWhiteSpace_def)

text \<open>
  C5. When the text holds a character that is not white space, or a file is attached,
  \<^verbatim>\<open>handleSend\<close> has, by the time it reaches its \<^verbatim>\<open>await\<close>, appended one user Message
  holding the text and the files of the Composer (followed by the placeholder, which is
  an agent Message), and has emptied the text and the list of files.
\<close>

theorem handleSend_appends:
  assumes "\<not> (\<forall>c \<in> set (input s). isWhiteSpace c) \<or> files s \<noteq> []"
  shows "messages (handleSend s) =
           messages s @ [Obj \<lparr>text = JStr (input s), sender = User,
                               files_msg = Some (files s), images = None\<rparr>, LOADING_MESSAGE]
         \<and> length (filter (\<lambda>r. sender (deref r) = User) (messages (handleSend s))) =
             Suc (length (filter (\<lambda>r. sender (deref r) = User) (messages s)))
         \<and> input (handleSend s) = [] \<and> files (handleSend s) = []"
  using assms by (auto simp: handleSend_def trim_empty_iff newMessage_def Let_def)

theorem handleSend_appends_witness:
  "messages (handleSend \<lparr>messages = [], input = utf16 ''hi'', isDragging = False,
                          files = [], isLoading = False, requests = []\<rparr>) =
     [Obj \<lparr>text = JStr (utf16 ''hi''), sender = User, files_msg = Some [], images = None\<rparr>,
      LOADING_MESSAGE]
   \<and> input (handleSend \<lparr>messages = [], input = utf16 ''hi'', isDragging = False,
                         files = [], isLoading = False, requests = []\<rparr>) = []
   \<and> files (handleSend \<lparr>messages = [], input = utf16 ''hi'', isDragging = False,
                         files = [], isLoading = False, requests = []\<rparr>) = []"
proof -
  let ?s = "\<lparr>messages = [], input = utf16 ''hi'', isDragging = False,
             files = [], isLoading = False, requests = []\<rparr>"
  have h: "\<not> (\<forall>c \<in> set (input ?s). isWhiteSpace c) \<or> files ?s \<noteq> []"
    by (simp add: utf16_def isWhiteSpace_def)
  show ?thesis
    using handleSend_appends [OF h] by simp
qed

text \<open>
  C9. When the text consists of white space only and a file is attached, \<^verbatim>\<open>handleSend\<close>
  goes ahead: the state changes, and both the user Message it appends and the field
  \<^verbatim>\<open>input\<close> of the request carry the text as it was typed. \<^verbatim>\<open>trim\<close> serves the test
  of line 28 only. (The files go into the request with their blobs and their names, the
  names as scalar value strings.)
\<close>

theorem whitespace_text_verbatim:
  assumes "\<forall>c \<in> set (input s). isWhiteSpace c" and "files s \<noteq> []"
  shows "handleSend s \<noteq> s
         \<and> messages (handleSend s) =
             messages s @ [Obj \<lparr>text = JStr (input s), sender = User,
                                 files_msg = Some (files s), images = None\<rparr>, LOADING_MESSAGE]
         \<and> requests (handleSend s) =
             requests s @ [\<lparr>form_input = JStr (input s),
                             form_files = map (\<lambda>file. (data file, toUSVString (name file)))
                                            (files s)\<rparr>]"
proof -
  have "files (handleSend s) = []"
    using assms(2) by (simp add: handleSend_def Let_def)
  then have "handleSend s \<noteq> s"
    using assms(2) by auto
  moreover have "toUSVString (input s) = input s"
    using assms(1) by (simp add: toUSVString_id whitespace_no_surrogate)
  ultimately show ?thesis
    using assms(2) by (simp add: handleSend_def newMessage_def sendMessageToServer_def Let_def)
qed

theorem whitespace_text_verbatim_witness:
  "messages (handleSend
      \<lparr>messages = [], input = [0x20, 0x20], isDragging = False,
       files = [\<lparr>name = utf16 ''a.csv'', data = \<lparr>blob_parts = [0x31], blob_type = utf16 ''text/csv''\<rparr>,
                 type = utf16 ''text/csv''\<rparr>],
       isLoading = False, requests = []\<rparr>) =
     [Obj \<lparr>text = JStr [0x20, 0x20], sender = User,
           files_msg = Some [\<lparr>name = utf16 ''a.csv'',
                               data = \<lparr>blob_parts = [0x31], blob_type = utf16 ''text/csv''\<rparr>,
                               type = utf16 ''text/csv''\<rparr>],
           images = None\<rparr>,
      LOADING_MESSAGE]"
proof -
  let ?s = "\<lparr>messages = [], input = [0x20, 0x20], isDragging = False,
       files = [\<lparr>name = utf16 ''a.csv'', data = \<lparr>blob_parts = [0x31], blob_type = utf16 ''text/csv''\<rparr>,
                 type = utf16 ''text/csv''\<rparr>],
       isLoading = False, requests = []\<rparr>"
  have h1: "\<forall>c \<in> set (input ?s). isWhiteSpace c"
    by (simp add: isWhiteSpace_def)
  have h2: "files ?s \<noteq> []"
    by simp
  show ?thesis
    using whitespace_text_verbatim [OF h1 h2] by simp
qed

text \<open>
  C7. \<^verbatim>\<open>removeFile\<close> with an index at or beyond the length of the list of attachments
  leaves the state as it is; with an index inside the list it takes out the element at
  that index and keeps the others in their order.
\<close>

theorem removeFile_index:
  "(length (files s) \<le> index \<longrightarrow> removeFile index s = s)
   \<and> (index < length (files s) \<longrightarrow>
        removeFile index s = s\<lparr>files := take index (files s) @ drop (Suc index) (files s)\<rparr>)"
  by (simp add: removeFile_def removeFile_filter)

theorem removeFile_index_witness:
  "removeFile 2
     \<lparr>messages = [], input = [], isDragging = False,
      files = [toFileInfo \<lparr>file_name = utf16 ''a'', file_type = [], file_bytes = []\<rparr>,
               toFileInfo \<lparr>file_name = utf16 ''b'', file_type = [], file_bytes = []\<rparr>],
      isLoading = False, requests = []\<rparr> =
   \<lparr>messages = [], input = [], isDragging = False,
    files = [toFileInfo \<lparr>file_name = utf16 ''a'', file_type = [], file_bytes = []\<rparr>,
             toFileInfo \<lparr>file_name = utf16 ''b'', file_type = [], file_bytes = []\<rparr>],
    isLoading = False, requests = []\<rparr>
   \<and> removeFile 0
     \<lparr>messages = [], input = [], isDragging = False,
      files = [toFileInfo \<lparr>file_name = utf16 ''a'', file_type = [], file_bytes = []\<rparr>,
               toFileInfo \<lparr>file_name = utf16 ''b'', file_type = [], file_bytes = []\<rparr>],
      isLoading = False, requests = []\<rparr> =
   \<lparr>messages = [], input = [], isDragging = False,
    files = [toFileInfo \<lparr>file_name = utf16 ''b'', file_type = [], file_bytes = []\<rparr>],
    isLoading = False, requests = []\<rparr>"
proof -
  let ?s = "\<lparr>messages = [], input = [], isDragging = False,
      files = [toFileInfo \<lparr>file_name = utf16 ''a'', file_type = [], file_bytes = []\<rparr>,
               toFileInfo \<lparr>file_name = utf16 ''b'', file_type = [], file_bytes = []\<rparr>],
      isLoading = False, requests = []\<rparr>"
  have "removeFile 2 ?s = ?s"
    using removeFile_index [of ?s 2] by simp
  moreover have "removeFile 0 ?s = ?s\<lparr>files := take 0 (files ?s) @ drop (Suc 0) (files ?s)\<rparr>"
    using removeFile_index [of ?s 0] by simp
  ultimately show ?thesis by simp
qed

text \<open>
  C8. \<^verbatim>\<open>handleFiles\<close> puts the new files behind the ones already attached, in the order
  in which they came and with nothing left out, whatever their names: the new list is
  the old one followed by one entry for each new file, with the name, the bytes and the
  type of that file. A drop clears \<^verbatim>\<open>isDragging\<close> and attaches the dropped files in the
  same way.
\<close>

theorem handleFiles_appends:
  "handleFiles newFiles s =
     s\<lparr>files := files s @
        map (\<lambda>file. \<lparr>name = file_name file,
                      data = \<lparr>blob_parts = file_bytes file, blob_type = file_type file\<rparr>,
                      type = file_type file\<rparr>) newFiles\<rparr>
   \<and> map name (files (handleFiles newFiles s)) =
       map name (files s) @ map file_name newFiles
   \<and> length (files (handleFiles newFiles s)) = length (files s) + length newFiles
   \<and> handleFileDrop dropped s =
       s\<lparr>isDragging := False,
         files := files s @
           map (\<lambda>file. \<lparr>name = file_name file,
                         data = \<lparr>blob_parts = file_bytes file, blob_type = file_type file\<rparr>,
                         type = file_type file\<rparr>) dropped\<rparr>
   \<and> map name (files (handleFileDrop dropped s)) =
       map name (files s) @ map file_name dropped"
  by (simp add: handleFiles_def handleFileDrop_def toFileInfo_def comp_def)

text \<open>
  Two files of the same name, dropped while a file of that name is attached: all three are
  in the list afterwards, the attached one first, the dropped ones in the order of the drop.
\<close>

theorem handleFiles_appends_witness:
  "handleFileDrop
     [\<lparr>file_name = utf16 ''a.csv'', file_type = utf16 ''text/csv'', file_bytes = [0x32]\<rparr>,
      \<lparr>file_name = utf16 ''a.csv'', file_type = utf16 ''text/csv'', file_bytes = [0x33]\<rparr>]
     \<lparr>messages = [], input = [], isDragging = True,
      files = [\<lparr>name = utf16 ''a.csv'',
                data = \<lparr>blob_parts = [0x31], blob_type = utf16 ''text/csv''\<rparr>,
                type = utf16 ''text/csv''\<rparr>],
      isLoading = False, requests = []\<rparr> =
   \<lparr>messages = [], input = [], isDragging = False,
    files = [\<lparr>name = utf16 ''a.csv'',
              data = \<lparr>blob_parts = [0x31], blob_type = utf16 ''text/csv''\<rparr>,
              type = utf16 ''text/csv''\<rparr>,
             \<lparr>name = utf16 ''a.csv'',
              data = \<lparr>blob_parts = [0x32], blob_type = utf16 ''text/csv''\<rparr>,
              type = utf16 ''text/csv''\<rparr>,
             \<lparr>name = utf16 ''a.csv'',
              data = \<lparr>blob_parts = [0x33], blob_type = utf16 ''text/csv''\<rparr>,
              type = utf16 ''text/csv''\<rparr>],
    isLoading = False, requests = []\<rparr>"
proof -
  let ?s = "\<lparr>messages = [], input = [], isDragging = True,
      files = [\<lparr>name = utf16 ''a.csv'',
                data = \<lparr>blob_parts = [0x31], blob_type = utf16 ''text/csv''\<rparr>,
                type = utf16 ''text/csv''\<rparr>],
      isLoading = False, requests = []\<rparr>"
  let ?d = "[\<lparr>file_name = utf16 ''a.csv'', file_type = utf16 ''text/csv'', file_bytes = [0x32]\<rparr>,
      \<lparr>file_name = utf16 ''a.csv'', file_type = utf16 ''text/csv'', file_bytes = [0x33]\<rparr>]"
  have "handleFileDrop ?d ?s =
      ?s\<lparr>isDragging := False,
         files := files ?s @
           map (\<lambda>file. \<lparr>name = file_name file,
                         data = \<lparr>blob_parts = file_bytes file, blob_type = file_type file\<rparr>,
                         type = file_type file\<rparr>) ?d\<rparr>"
    using handleFiles_appends [of "[]" ?s ?d] by blast
  then show ?thesis by simp
qed

subsection \<open>The Transport\<close>

lemma failure_is_error:
  assumes "f = Rejected \<or> (\<exists>r. f = Fulfilled r \<and> (\<not> ok r \<or> json r = None))"
  shows "\<exists>e. sendMessageToServer_settled rt f = Inl e"
  using assms by (auto simp: sendMessageToServer_settled_def)

lemma handleSend_settled_error:
  "handleSend_settled (Inl e) s =
     s\<lparr>messages := removeLoading (messages s) @ [Obj errorMessage], isLoading := False\<rparr>"
  by (simp add: handleSend_settled_def)

lemma map_of_files:
  "distinct (map fst f) \<Longrightarrow> (k, v) \<in> set f \<Longrightarrow>
     map_of (map (\<lambda>(k, v). (k, JStr v)) f) k = Some (JStr v)"
  by (induction f) (auto simp: rev_image_eqI)

lemma toString_error: "toString rt v = Inl e \<Longrightarrow> e = TypeError"
  and join_error: "join rt vs = Inl e \<Longrightarrow> e = TypeError"
  by (induction rt v and rt vs rule: toString_join.induct)
     (auto split: sum.splits if_splits)

lemma indexKey_error: "indexKey rt v = Inl e \<Longrightarrow> e = TypeError"
  using toString_error [of rt v e] by (cases v) (auto split: sum.splits)

lemma lastElement_cases:
  "lastElement rt v = Inl TypeError \<or> (\<exists>t. lastElement rt v = Inr t)"
proof (cases v)
  case (JObj ps)
  then show ?thesis
    using indexKey_error [of rt "propertyOf (JObj ps) (utf16 ''length'')"]
    by (cases "indexKey rt (propertyOf (JObj ps) (utf16 ''length''))") auto
qed simp_all

lemma pushImages_strings:
  assumes "\<forall>k \<in> set ks. \<exists>cs. propertyOf fs k = JStr cs"
  shows "pushImages rt fs ks imgs =
           Inr (imgs @ map (\<lambda>k. utf16 ''data:image/png;base64,'' @
                                  (case propertyOf fs k of JStr cs \<Rightarrow> cs | _ \<Rightarrow> [])) ks)"
  using assms by (induction ks arbitrary: imgs) (auto simp: dataURI_def)

lemma images_of_strings:
  assumes "distinct (map fst f)"
  shows "pushImages rt (JObj (map (\<lambda>(k, v). (k, JStr v)) f))
           (map fst (map (\<lambda>(k, v). (k, JStr v)) f)) [] =
         Inr (map (\<lambda>(k, v). utf16 ''data:image/png;base64,'' @ v) f)"
proof -
  let ?fs = "JObj (map (\<lambda>(k, v). (k, JStr v)) f)"
  have p: "propertyOf ?fs k = JStr v" if "(k, v) \<in> set f" for k v
    using assms that by (simp add: propertyOf_def map_of_files)
  have "\<forall>k \<in> set (map fst (map (\<lambda>(k, v). (k, JStr v)) f)). \<exists>cs. propertyOf ?fs k = JStr cs"
    using p by auto
  then have "pushImages rt ?fs (map fst (map (\<lambda>(k, v). (k, JStr v)) f)) [] =
      Inr ([] @ map (\<lambda>k. utf16 ''data:image/png;base64,'' @
                            (case propertyOf ?fs k of JStr cs \<Rightarrow> cs | _ \<Rightarrow> []))
                    (map fst (map (\<lambda>(k, v). (k, JStr v)) f)))"
    by (rule pushImages_strings)
  also have "\<dots> = Inr (map (\<lambda>(k, v). utf16 ''data:image/png;base64,'' @ v) f)"
    using p by (auto simp: comp_def)
  finally show ?thesis .
qed

lemma settled_reply:
  assumes "ok r" and "json r = Some (JObj ps)"
    and "map_of ps (utf16 ''messages'') = Some (JArr m)"
    and "map_of ps (utf16 ''files'') = Some (JObj (map (\<lambda>(k, v). (k, JStr v)) f))"
    and "distinct (map fst f)"
  shows "sendMessageToServer_settled rt (Fulfilled r) =
           Inr [Obj \<lparr>text = (if m = [] then JUndefined else last m), sender = Agent,
                     files_msg = Some [],
                     images = Some (map (\<lambda>(k, v). utf16 ''data:image/png;base64,'' @ v) f)\<rparr>]"
proof -
  have t: "lastElement rt (JArr m) = Inr (if m = [] then JUndefined else last m)"
    by (simp add: last_conv_nth)
  show ?thesis
    using assms(1-4) t images_of_strings [OF assms(5), of rt]
    by (simp add: sendMessageToServer_settled_def get_def propertyOf_def Object_keys_def)
qed

lemma no_files_TypeError:
  assumes "ok r" and "json r = Some body"
    and "map_of (ownProperties body) (utf16 ''files'') = None
         \<or> map_of (ownProperties body) (utf16 ''files'') = Some JNull"
  shows "sendMessageToServer_settled rt (Fulfilled r) = Inl TypeError"
proof -
  have k: "Object_keys (propertyOf body (utf16 ''files'')) = Inl TypeError"
    using assms(3) by (auto simp: Object_keys_def propertyOf_def)
  show ?thesis
    using assms(1,2) k lastElement_cases [of rt "propertyOf body (utf16 ''messages'')"]
    by (auto simp: sendMessageToServer_settled_def get_def)
qed

text \<open>
  C2. When the request fails, because \<^verbatim>\<open>fetch\<close> rejects, the status is not OK or the
  body is not JSON, the Transport throws and \<^verbatim>\<open>handleSend\<close> catches: at whatever state
  \<open>s\<close> the failure arrives, the placeholder is taken out, one agent Message with the
  fixed error text is appended, and \<^verbatim>\<open>isLoading\<close> is false. The outcome is a state, so
  nothing is thrown further. No request is issued on failure, and the send itself, from a
  state \<open>s0\<close> that passes the test of line 28, issued exactly one.
\<close>

theorem send_failure:
  assumes "f = Rejected \<or> (\<exists>r. f = Fulfilled r \<and> (\<not> ok r \<or> json r = None))"
  shows "(\<exists>e. sendMessageToServer_settled rt f = Inl e)
         \<and> handleSend_settled (sendMessageToServer_settled rt f) s =
             s\<lparr>messages := removeLoading (messages s) @ [Obj errorMessage],
               isLoading := False\<rparr>
         \<and> text errorMessage = JStr errorText \<and> sender errorMessage = Agent
         \<and> isLoading (handleSend_settled (sendMessageToServer_settled rt f) s) = False
         \<and> requests (handleSend_settled (sendMessageToServer_settled rt f) s) = requests s
         \<and> requests (handleSend s0) =
             (if trim (input s0) = [] \<and> files s0 = [] then requests s0
              else requests s0 @ [sendMessageToServer (newMessage s0)])"
proof -
  obtain e where "sendMessageToServer_settled rt f = Inl e"
    using failure_is_error [OF assms] by blast
  then show ?thesis
    by (simp add: handleSend_settled_error errorMessage_def handleSend_def Let_def)
qed

theorem send_failure_witness:
  "handleSend_settled
     (sendMessageToServer_settled noConversion
        (Fulfilled \<lparr>ok = False, statusText = utf16 ''Bad Gateway'', json = None\<rparr>))
     (handleSend \<lparr>messages = [], input = utf16 ''hi'', isDragging = False, files = [],
                   isLoading = False, requests = []\<rparr>) =
   \<lparr>messages = [Obj \<lparr>text = JStr (utf16 ''hi''), sender = User, files_msg = Some [],
                      images = None\<rparr>,
                Obj errorMessage],
    input = [], isDragging = False, files = [], isLoading = False,
    requests = [\<lparr>form_input = JStr (utf16 ''hi''), form_files = []\<rparr>]\<rparr>"
proof -
  let ?f = "Fulfilled \<lparr>ok = False, statusText = utf16 ''Bad Gateway'', json = None\<rparr>"
  let ?s0 = "\<lparr>messages = [], input = utf16 ''hi'', isDragging = False, files = [],
               isLoading = False, requests = []\<rparr>"
  have h: "?f = Rejected \<or> (\<exists>r. ?f = Fulfilled r \<and> (\<not> ok r \<or> json r = None))"
    by simp
  have s: "handleSend ?s0 =
      \<lparr>messages = [Obj \<lparr>text = JStr (utf16 ''hi''), sender = User, files_msg = Some [],
                         images = None\<rparr>, LOADING_MESSAGE],
       input = [], isDragging = False, files = [], isLoading = True,
       requests = [\<lparr>form_input = JStr (utf16 ''hi''), form_files = []\<rparr>]\<rparr>"
    by (simp add: handleSend_def newMessage_def sendMessageToServer_def trim_def
        isWhiteSpace_def isSurrogate_def isLeading_def isTrailing_def utf16_def Let_def)
  have "handleSend_settled (sendMessageToServer_settled noConversion ?f) (handleSend ?s0) =
      (handleSend ?s0)\<lparr>messages := removeLoading (messages (handleSend ?s0)) @ [Obj errorMessage],
        isLoading := False\<rparr>"
    using send_failure [OF h, of noConversion "handleSend ?s0" ?s0] by blast
  then show ?thesis
    by (simp add: s removeLoading_def)
qed

text \<open>
  C3. For an OK response whose body is an object with the array \<open>m\<close> under \<^verbatim>\<open>messages\<close>
  and, under \<^verbatim>\<open>files\<close>, an object \<open>f\<close> of strings, the Transport returns exactly one agent
  Message. Its text is the last element of \<open>m\<close> (\<^verbatim>\<open>undefined\<close> when \<open>m\<close> is empty), and
  its images are, key by key, the text \<^verbatim>\<open>data:image/png;base64,\<close> followed by the value
  of the key. \<^verbatim>\<open>handleSend\<close> appends that Message to the store.
\<close>

theorem transport_success:
  assumes "ok r" and "json r = Some (JObj ps)"
    and "map_of ps (utf16 ''messages'') = Some (JArr m)"
    and "map_of ps (utf16 ''files'') = Some (JObj (map (\<lambda>(k, v). (k, JStr v)) f))"
    and "distinct (map fst f)"
  shows "sendMessageToServer_settled rt (Fulfilled r) =
           Inr [Obj \<lparr>text = (if m = [] then JUndefined else last m), sender = Agent,
                     files_msg = Some [],
                     images = Some (map (\<lambda>(k, v). utf16 ''data:image/png;base64,'' @ v) f)\<rparr>]
         \<and> messages (handleSend_settled (sendMessageToServer_settled rt (Fulfilled r)) s) =
             removeLoading (messages s) @
               [Obj \<lparr>text = (if m = [] then JUndefined else last m), sender = Agent,
                     files_msg = Some [],
                     images = Some (map (\<lambda>(k, v). utf16 ''data:image/png;base64,'' @ v) f)\<rparr>]"
  using settled_reply [OF assms, of rt] by (simp add: handleSend_settled_def)

theorem transport_success_witness:
  "sendMessageToServer_settled noConversion
     (Fulfilled \<lparr>ok = True, statusText = utf16 ''OK'',
        json = Some (JObj [(utf16 ''messages'', JArr [JStr (utf16 ''a''), JStr (utf16 ''b'')]),
                           (utf16 ''files'', JObj [(utf16 ''x'', JStr (utf16 ''iVBOR''))])])\<rparr>) =
   Inr [Obj \<lparr>text = JStr (utf16 ''b''), sender = Agent, files_msg = Some [],
             images = Some [utf16 ''data:image/png;base64,iVBOR'']\<rparr>]"
proof -
  let ?ps = "[(utf16 ''messages'', JArr [JStr (utf16 ''a''), JStr (utf16 ''b'')]),
              (utf16 ''files'', JObj [(utf16 ''x'', JStr (utf16 ''iVBOR''))])]"
  let ?r = "\<lparr>ok = True, statusText = utf16 ''OK'', json = Some (JObj ?ps)\<rparr>"
  have h1: "ok ?r" and h2: "json ?r = Some (JObj ?ps)"
    by simp_all
  have h3: "map_of ?ps (utf16 ''messages'') = Some (JArr [JStr (utf16 ''a''), JStr (utf16 ''b'')])"
    by simp
  have h4: "map_of ?ps (utf16 ''files'') =
      Some (JObj (map (\<lambda>(k, v). (k, JStr v)) [(utf16 ''x'', utf16 ''iVBOR'')]))"
    by (simp add: utf16_def)
  have h5: "distinct (map fst [(utf16 ''x'', utf16 ''iVBOR'')])"
    by simp
  show ?thesis
    using transport_success [OF h1 h2 h3 h4 h5, of noConversion] by (simp add: utf16_def)
qed

text \<open>
  C10, as amended. An OK response whose body has no property \<^verbatim>\<open>files\<close>, or has \<^verbatim>\<open>null\<close>
  there, makes the Transport throw a TypeError whatever else the body holds, and
  \<^verbatim>\<open>handleSend\<close> appends the error Message instead of a reply. An OK response with an
  empty array under \<^verbatim>\<open>messages\<close> and, under \<^verbatim>\<open>files\<close>, an object whose values are
  strings does not throw: the reply is one agent Message whose text is \<^verbatim>\<open>undefined\<close>,
  with one image for each key.
\<close>

theorem missing_files_throws:
  "(ok r \<and> json r = Some body
      \<and> (map_of (ownProperties body) (utf16 ''files'') = None
         \<or> map_of (ownProperties body) (utf16 ''files'') = Some JNull)
    \<longrightarrow> sendMessageToServer_settled rt (Fulfilled r) = Inl TypeError
        \<and> messages (handleSend_settled (sendMessageToServer_settled rt (Fulfilled r)) s) =
            removeLoading (messages s) @ [Obj errorMessage])
   \<and> (ok r \<and> json r = Some (JObj ps)
      \<and> map_of ps (utf16 ''messages'') = Some (JArr [])
      \<and> map_of ps (utf16 ''files'') = Some (JObj (map (\<lambda>(k, v). (k, JStr v)) f))
      \<and> distinct (map fst f)
    \<longrightarrow> sendMessageToServer_settled rt (Fulfilled r) =
          Inr [Obj \<lparr>text = JUndefined, sender = Agent, files_msg = Some [],
                    images = Some (map (\<lambda>(k, v). utf16 ''data:image/png;base64,'' @ v) f)\<rparr>])"
proof (intro conjI impI)
  assume "ok r \<and> json r = Some body
      \<and> (map_of (ownProperties body) (utf16 ''files'') = None
         \<or> map_of (ownProperties body) (utf16 ''files'') = Some JNull)"
  then show e: "sendMessageToServer_settled rt (Fulfilled r) = Inl TypeError"
    using no_files_TypeError by blast
  show "messages (handleSend_settled (sendMessageToServer_settled rt (Fulfilled r)) s) =
            removeLoading (messages s) @ [Obj errorMessage]"
    unfolding e by (simp add: handleSend_settled_error)
next
  assume a: "ok r \<and> json r = Some (JObj ps)
      \<and> map_of ps (utf16 ''messages'') = Some (JArr [])
      \<and> map_of ps (utf16 ''files'') = Some (JObj (map (\<lambda>(k, v). (k, JStr v)) f))
      \<and> distinct (map fst f)"
  show "sendMessageToServer_settled rt (Fulfilled r) =
          Inr [Obj \<lparr>text = JUndefined, sender = Agent, files_msg = Some [],
                    images = Some (map (\<lambda>(k, v). utf16 ''data:image/png;base64,'' @ v) f)\<rparr>]"
    using settled_reply [of r ps "[]" f rt] a by simp
qed

theorem missing_files_throws_witness:
  "sendMessageToServer_settled noConversion
     (Fulfilled \<lparr>ok = True, statusText = utf16 ''OK'',
        json = Some (JObj [(utf16 ''messages'', JArr [JStr (utf16 ''a'')])])\<rparr>) =
   Inl TypeError
   \<and> sendMessageToServer_settled noConversion
     (Fulfilled \<lparr>ok = True, statusText = utf16 ''OK'',
        json = Some (JObj [(utf16 ''messages'', JArr []),
                           (utf16 ''files'', JObj [(utf16 ''x'', JStr (utf16 ''iVBOR''))])])\<rparr>) =
   Inr [Obj \<lparr>text = JUndefined, sender = Agent, files_msg = Some [],
             images = Some [utf16 ''data:image/png;base64,iVBOR'']\<rparr>]"
proof -
  let ?b1 = "JObj [(utf16 ''messages'', JArr [JStr (utf16 ''a'')])]"
  let ?r1 = "\<lparr>ok = True, statusText = utf16 ''OK'', json = Some ?b1\<rparr>"
  let ?f = "[(utf16 ''x'', utf16 ''iVBOR'')]"
  let ?ps = "[(utf16 ''messages'', JArr []),
              (utf16 ''files'', JObj [(utf16 ''x'', JStr (utf16 ''iVBOR''))])]"
  let ?r2 = "\<lparr>ok = True, statusText = utf16 ''OK'', json = Some (JObj ?ps)\<rparr>"
  have h1: "ok ?r1 \<and> json ?r1 = Some ?b1
      \<and> (map_of (ownProperties ?b1) (utf16 ''files'') = None
         \<or> map_of (ownProperties ?b1) (utf16 ''files'') = Some JNull)"
    by (simp add: utf16_def)
  have h2: "ok ?r2 \<and> json ?r2 = Some (JObj ?ps)
      \<and> map_of ?ps (utf16 ''messages'') = Some (JArr [])
      \<and> map_of ?ps (utf16 ''files'') = Some (JObj (map (\<lambda>(k, v). (k, JStr v)) ?f))
      \<and> distinct (map fst ?f)"
    by (simp add: utf16_def)
  have "sendMessageToServer_settled noConversion (Fulfilled ?r1) = Inl TypeError"
    using missing_files_throws [of ?r1 ?b1 noConversion initial ?ps ?f, THEN conjunct1, THEN mp, OF h1]
    by simp
  moreover have "sendMessageToServer_settled noConversion (Fulfilled ?r2) =
      Inr [Obj \<lparr>text = JUndefined, sender = Agent, files_msg = Some [],
                images = Some [utf16 ''data:image/png;base64,iVBOR'']\<rparr>]"
    using missing_files_throws [of ?r2 ?b1 noConversion initial ?ps ?f, THEN conjunct2, THEN mp, OF h2]
    by (simp add: utf16_def)
  ultimately show ?thesis by simp
qed

text \<open>
  A value under \<^verbatim>\<open>files\<close> that cannot be converted to a string makes line 118 throw: an
  object with a property \<^verbatim>\<open>toString\<close> of its own, here the number 1, has no usable
  conversion.
\<close>

lemma unprintable_file_throws:
  "sendMessageToServer_settled rt
     (Fulfilled \<lparr>ok = True, statusText = utf16 ''OK'',
        json = Some (JObj [(utf16 ''messages'', JArr []),
                           (utf16 ''files'',
                            JObj [(utf16 ''x'',
                                   JObj [(utf16 ''toString'', JNum 0x3FF0000000000000)])])])\<rparr>) =
   Inl TypeError"
  by (simp add: sendMessageToServer_settled_def get_def propertyOf_def Object_keys_def
      dataURI_def utf16_def)

text \<open>The same holds for \<^verbatim>\<open>m.length - 1\<close> when \<^verbatim>\<open>messages\<close> is an object with such a length.\<close>

lemma unprintable_length_throws:
  "lastElement rt
     (JObj [(utf16 ''length'', JObj [(utf16 ''toString'', JNum 0x3FF0000000000000)])]) =
   Inl TypeError"
  by (simp add: propertyOf_def utf16_def)

text \<open>
  The claim C10 as it was written also says that a value under \<^verbatim>\<open>files\<close> that is not an
  object makes the Transport throw. \<^verbatim>\<open>Object.keys\<close> converts a boolean to an object with
  no keys: the reply below, with \<^verbatim>\<open>true\<close> under \<^verbatim>\<open>files\<close>, gives an agent Message with
  no image.
\<close>

theorem files_true_does_not_throw:
  "sendMessageToServer_settled noConversion
     (Fulfilled \<lparr>ok = True, statusText = utf16 ''OK'',
        json = Some (JObj [(utf16 ''messages'', JArr [JStr (utf16 ''a'')]),
                           (utf16 ''files'', JBool True)])\<rparr>) =
   Inr [Obj \<lparr>text = JStr (utf16 ''a''), sender = Agent, files_msg = Some [], images = Some []\<rparr>]"
  by (simp add: sendMessageToServer_settled_def get_def propertyOf_def Object_keys_def utf16_def)

subsection \<open>The Conversation Store\<close>

text \<open>
  C6. The removal done when the Transport completes takes out the sentinel and nothing
  else. A Message of the store that reads \<^verbatim>\<open>Loading...\<close> and comes from the agent, but is
  another object than the sentinel, is still in the store afterwards; the store is then
  its former content without the sentinel, in the former order, followed by what the
  completion appends.
\<close>

theorem keeps_other_messages:
  assumes "r \<in> set (messages s)" and "r \<noteq> LOADING_MESSAGE"
    and "text (deref r) = JStr (utf16 ''Loading...'')" and "sender (deref r) = Agent"
  shows "r \<in> set (messages (handleSend_settled result s))
         \<and> messages (handleSend_settled result s) =
             filter (\<lambda>x. x \<noteq> LOADING_MESSAGE) (messages s) @
               (case result of Inr answers \<Rightarrow> answers | Inl e \<Rightarrow> [Obj errorMessage])"
  using assms by (cases result) (simp_all add: handleSend_settled_def removeLoading_def)

theorem keeps_other_messages_witness:
  "messages (handleSend_settled (Inl FetchFailed)
     \<lparr>messages = [Obj \<lparr>text = JStr (utf16 ''Loading...''), sender = Agent,
                        files_msg = Some [], images = Some []\<rparr>,
                  LOADING_MESSAGE],
      input = [], isDragging = False, files = [], isLoading = True, requests = []\<rparr>) =
   [Obj \<lparr>text = JStr (utf16 ''Loading...''), sender = Agent,
         files_msg = Some [], images = Some []\<rparr>,
    Obj errorMessage]"
proof -
  let ?m = "\<lparr>text = JStr (utf16 ''Loading...''), sender = Agent,
             files_msg = Some [], images = Some []\<rparr>"
  let ?s = "\<lparr>messages = [Obj ?m, LOADING_MESSAGE],
      input = [], isDragging = False, files = [], isLoading = True, requests = []\<rparr>"
  have h1: "Obj ?m \<in> set (messages ?s)" and h2: "Obj ?m \<noteq> LOADING_MESSAGE"
    and h3: "text (deref (Obj ?m)) = JStr (utf16 ''Loading...'')"
    and h4: "sender (deref (Obj ?m)) = Agent"
    by simp_all
  show ?thesis
    using keeps_other_messages [OF h1 h2 h3 h4, of "Inl FetchFailed"] by simp
qed

subsection \<open>The placeholder across events\<close>

lemma answers_fresh:
  "sendMessageToServer_settled rt f = Inr answers \<Longrightarrow> LOADING_MESSAGE \<notin> set answers"
  by (auto simp: sendMessageToServer_settled_def
      split: fetched.splits if_splits option.splits sum.splits)

lemma count_removeLoading: "count_list (removeLoading xs) LOADING_MESSAGE = 0"
  by (simp add: removeLoading_def count_list_0_iff)

lemma single_fire:
  assumes "single s" and "e \<noteq> KeyPress (utf16 ''Enter'')"
  shows "single (fire rt s e)"
proof (cases e)
  case (Settled f)
  show ?thesis
  proof (cases "sendMessageToServer_settled rt f")
    case (Inl err)
    then show ?thesis using Settled
      by (simp add: single_def handleSend_settled_def count_removeLoading)
  next
    case (Inr answers)
    then have "count_list answers LOADING_MESSAGE = 0"
      using answers_fresh by (simp add: count_list_0_iff)
    then show ?thesis using Settled Inr
      by (simp add: single_def handleSend_settled_def count_removeLoading)
  qed
next
  case Click
  then show ?thesis using assms(1)
    by (auto simp: single_def handleClick_def handleSend_def Let_def)
next
  case (KeyPress key)
  then show ?thesis using assms by (simp add: handleKeyPress_def)
qed (use assms(1) in \<open>simp_all add: single_def handleChange_def handleFiles_def removeFile_def
      handleFileDrop_def handleDragOver_def handleDragLeave_def\<close>)

lemma single_run:
  "single s \<Longrightarrow> \<forall>e \<in> set es. e \<noteq> KeyPress (utf16 ''Enter'') \<Longrightarrow> single (run rt es s)"
  unfolding run_def by (induction es arbitrary: s) (simp_all add: single_fire)

text \<open>
  As long as no send is triggered by the key \<^verbatim>\<open>Enter\<close>, the store never holds more than
  one placeholder: the button is disabled while a send is in flight.
\<close>

lemma one_placeholder_without_Enter:
  assumes "\<forall>e \<in> set es. e \<noteq> KeyPress (utf16 ''Enter'')"
  shows "count_list (messages (run rt es initial)) LOADING_MESSAGE \<le> 1"
proof -
  have "single initial"
    by (simp add: single_def initial_def)
  then have "single (run rt es initial)"
    using assms by (rule single_run)
  then show ?thesis
    by (simp add: single_def)
qed

text \<open>
  C1. The store is to hold at most one placeholder in every reachable state. The key
  \<^verbatim>\<open>Enter\<close> calls \<^verbatim>\<open>handleSend\<close> while an earlier send is in flight: after typing
  \<^verbatim>\<open>a\<close>, \<^verbatim>\<open>Enter\<close>, \<^verbatim>\<open>b\<close>, \<^verbatim>\<open>Enter\<close>, with no response yet, the store holds two.
\<close>

theorem two_placeholders:
  "messages (run noConversion
      [Change (utf16 ''a''), KeyPress (utf16 ''Enter''),
       Change (utf16 ''b''), KeyPress (utf16 ''Enter'')] initial) =
     [Obj \<lparr>text = JStr (utf16 ''a''), sender = User, files_msg = Some [], images = None\<rparr>,
      LOADING_MESSAGE,
      Obj \<lparr>text = JStr (utf16 ''b''), sender = User, files_msg = Some [], images = None\<rparr>,
      LOADING_MESSAGE]
   \<and> count_list (messages (run noConversion
      [Change (utf16 ''a''), KeyPress (utf16 ''Enter''),
       Change (utf16 ''b''), KeyPress (utf16 ''Enter'')] initial)) LOADING_MESSAGE = 2"
  by (simp add: run_def handleKeyPress_def handleChange_def handleSend_def newMessage_def
      initial_def trim_def isWhiteSpace_def utf16_def Let_def)


end
